theory Spec2Isabelle
  imports Complex_Main
begin

section \<open>Persistence service (src/services/persistence.ts)\<close>

text \<open>
  \<open>AppData\<close> is the document of the dashboard: seven collections of items. The items are
  \<open>any\<close> in the source, so the item type is a parameter here.
\<close>

record 'a AppData =
  routine :: "'a list"
  students :: "'a list"
  faculty :: "'a list"
  notices :: "'a list"
  attendance :: "'a list"
  polls :: "'a list"
  courses :: "'a list"

definition LOCAL_STORAGE_KEY :: string where
  "LOCAL_STORAGE_KEY = ''uu_eee_master_state''"

text \<open>
  What the browser answers to the \<open>fetch\<close> of \<open>save\<close>: a response with its \<open>ok\<close> flag, or
  an exception (the network failed), which \<open>save\<close> catches.
\<close>

datatype FetchResult = Response bool | FetchThrew

text \<open>
  The effects of the service on the browser, in the order they happen: a write to
  localStorage, a PUT of a body to the remote bin.
\<close>

datatype IO = SetItem string string | FetchPUT string

record Browser =
  localStorage :: "string \<rightharpoonup> string"
  io_log :: "IO list"

definition setItem :: "string \<Rightarrow> string \<Rightarrow> Browser \<Rightarrow> Browser" where
  "setItem k v b = b\<lparr>localStorage := (localStorage b)(k \<mapsto> v), io_log := io_log b @ [SetItem k v]\<rparr>"

definition fetchPUT :: "string \<Rightarrow> Browser \<Rightarrow> Browser" where
  "fetchPUT body b = b\<lparr>io_log := io_log b @ [FetchPUT body]\<rparr>"

text \<open>
  \<open>persistence.save\<close>, lines 55-74. \<open>stringify\<close> stands for \<open>JSON.stringify\<close> and
  \<open>res\<close> for the outcome of the remote request. The result is the boolean the promise
  resolves to, with the browser after the call.
\<close>

definition save :: "('a AppData \<Rightarrow> string) \<Rightarrow> 'a AppData \<Rightarrow> FetchResult \<Rightarrow> Browser \<Rightarrow> bool \<times> Browser" where
  "save stringify d res b =
     (let b1 = setItem LOCAL_STORAGE_KEY (stringify d) b;
          b2 = fetchPUT (stringify d) b1
      in case res of
           Response ok \<Rightarrow> (ok, b2)
         | FetchThrew \<Rightarrow> (False, b2))"

section \<open>The debounced save effect (src/App.tsx, lines 45-62)\<close>

datatype SyncStatus = sync_synced | sync_syncing | sync_error | sync_idle

text \<open>
  The part of the component the effect reads and writes: the \<open>data\<close> state, the
  \<open>lastSavedData\<close> ref, the \<open>syncStatus\<close> state, and the timer the effect has set and
  not yet cleared (with the \<open>data\<close> and \<open>currentDataStr\<close> its callback closes over).
\<close>

record 'a Sync =
  data :: "'a AppData"
  lastSavedData :: string
  syncStatus :: SyncStatus
  timer :: "('a AppData \<times> string) option"
  browser :: Browser

definition initialData :: "'a AppData" where
  "initialData = \<lparr>routine = [], students = [], faculty = [], notices = [],
                   attendance = [], polls = [], courses = []\<rparr>"

text \<open>The body of the effect, lines 47-59: it returns early or sets the timer.\<close>

definition save_effect :: "('a AppData \<Rightarrow> string) \<Rightarrow> 'a Sync \<Rightarrow> 'a Sync" where
  "save_effect stringify s =
     (let currentDataStr = stringify (data s) in
      if currentDataStr = lastSavedData s
         \<or> (length (routine (data s)) = 0 \<and> length (students (data s)) = 0
             \<and> length (notices (data s)) = 0)
      then s
      else s\<lparr>timer := Some (data s, currentDataStr)\<rparr>)"

text \<open>The cleanup the effect returns, line 61: \<open>clearTimeout(timer)\<close>.\<close>

definition effect_cleanup :: "'a Sync \<Rightarrow> 'a Sync" where
  "effect_cleanup s = s\<lparr>timer := None\<rparr>"

text \<open>
  \<open>setData\<close>: the component renders again with the new document; since \<open>data\<close> is the
  effect's dependency, the cleanup of the previous run is called, then the effect.
\<close>

definition setData :: "('a AppData \<Rightarrow> string) \<Rightarrow> 'a AppData \<Rightarrow> 'a Sync \<Rightarrow> 'a Sync" where
  "setData stringify d s = save_effect stringify (effect_cleanup (s\<lparr>data := d\<rparr>))"

text \<open>
  The timer's callback, lines 50-59, run when the 1500 ms have passed with no cleanup in
  between. Without a pending timer nothing runs.
\<close>

definition timer_fires :: "('a AppData \<Rightarrow> string) \<Rightarrow> FetchResult \<Rightarrow> 'a Sync \<Rightarrow> 'a Sync" where
  "timer_fires stringify res s =
     (case timer s of
        None \<Rightarrow> s
      | Some (d, currentDataStr) \<Rightarrow>
          (let s1 = s\<lparr>timer := None, syncStatus := sync_syncing\<rparr>;
               (success, b) = save stringify d res (browser s1)
           in if success
              then s1\<lparr>browser := b, syncStatus := sync_synced, lastSavedData := currentDataStr\<rparr>
              else s1\<lparr>browser := b, syncStatus := sync_error\<rparr>))"

text \<open>
  \<open>handleAddItem\<close>, lines 157-170, on the document: \<open>showForm\<close> selects the collection
  and \<open>item\<close> is the object built from the form's fields.
\<close>

definition handleAddItem :: "string option \<Rightarrow> 'a \<Rightarrow> 'a AppData \<Rightarrow> 'a AppData" where
  "handleAddItem showForm item d =
     (if showForm = Some ''home'' \<or> showForm = Some ''routine'' then d\<lparr>routine := routine d @ [item]\<rparr>
      else if showForm = Some ''students'' then d\<lparr>students := students d @ [item]\<rparr>
      else if showForm = Some ''faculty'' then d\<lparr>faculty := faculty d @ [item]\<rparr>
      else if showForm = Some ''notices'' then d\<lparr>notices := notices d @ [item]\<rparr>
      else if showForm = Some ''academic'' then d\<lparr>courses := courses d @ [item]\<rparr>
      else if showForm = Some ''polls'' then d\<lparr>polls := polls d @ [item]\<rparr>
      else d)"

datatype Category = Routine | Students | Faculty | Notices | Attendance | Polls | Courses

text \<open>\<open>xs.filter((_, i) => i !== index)\<close>; the index is any number.\<close>

definition filter_index :: "int \<Rightarrow> 'a list \<Rightarrow> 'a list" where
  "filter_index index xs = map snd (filter (\<lambda>(i, x). int i \<noteq> index) (zip [0..<length xs] xs))"

text \<open>\<open>handleRemoveItem\<close>, lines 172-176.\<close>

fun handleRemoveItem :: "Category \<Rightarrow> int \<Rightarrow> 'a AppData \<Rightarrow> 'a AppData" where
  "handleRemoveItem Routine index d = d\<lparr>routine := filter_index index (routine d)\<rparr>"
| "handleRemoveItem Students index d = d\<lparr>students := filter_index index (students d)\<rparr>"
| "handleRemoveItem Faculty index d = d\<lparr>faculty := filter_index index (faculty d)\<rparr>"
| "handleRemoveItem Notices index d = d\<lparr>notices := filter_index index (notices d)\<rparr>"
| "handleRemoveItem Attendance index d = d\<lparr>attendance := filter_index index (attendance d)\<rparr>"
| "handleRemoveItem Polls index d = d\<lparr>polls := filter_index index (polls d)\<rparr>"
| "handleRemoveItem Courses index d = d\<lparr>courses := filter_index index (courses d)\<rparr>"

section \<open>Voice assistant: data (src/types.ts and src/App.tsx, lines 64-76)\<close>

datatype Status = idle | listening | speaking

datatype Role = user | model

record TranscriptionEntry =
  entry_id :: string
  role :: Role
  entry_text :: string
  timestamp :: int

text \<open>
  The inbound message, as far as \<open>onmessage\<close> reads it. A transcription is an object
  whose \<open>text\<close> may be missing; \<open>inlineData\<close> is
  \<open>modelTurn?.parts?.[0]?.inlineData?.data\<close>, the base64 string of the audio chunk.
\<close>

record ServerContent =
  outputTranscription :: "string option option"
  inputTranscription :: "string option option"
  turnComplete :: bool
  inlineData :: "string option"
  interrupted :: bool

record LiveServerMessage =
  serverContent :: "ServerContent option"

text \<open>
  Web Audio, as far as the scheduler uses it. The duration of a buffer is its number of
  frames over its sample rate. Times are seconds on the output clock; they are real
  numbers here (the source computes with doubles).
\<close>

record AudioBuffer =
  buffer_length :: nat
  buffer_sampleRate :: nat

definition duration :: "AudioBuffer \<Rightarrow> real" where
  "duration b = real (buffer_length b) / real (buffer_sampleRate b)"

datatype PlayState = playing | stopped | ended

record SourceNode =
  buffer :: AudioBuffer
  startAt :: real
  playState :: PlayState

datatype DOMException = InvalidStateError

text \<open>
  \<open>source.stop()\<close>: a node that is scheduled or playing is silenced. On a node that is
  no longer playing the call may raise, depending on the browser; the model takes the
  case where it does, which the source's \<open>try/catch\<close> has to absorb.
\<close>

definition node_stop :: "SourceNode \<Rightarrow> DOMException + SourceNode" where
  "node_stop n = (if playState n = playing then Inr (n\<lparr>playState := stopped\<rparr>) else Inl InvalidStateError)"

record AudioContexts =
  input_sampleRate :: nat
  output_sampleRate :: nat

text \<open>\<open>sources\<close> is the set of handles in flight, in insertion order; a handle is the
  index of its node in \<open>nodes\<close> below.\<close>

record AudioNodes =
  sources :: "nat list"

text \<open>
  The values of the render that \<open>startVoiceSession\<close> was called in, which the callbacks
  it creates close over: \<open>currentInput\<close> and \<open>currentOutput\<close> in \<open>onmessage\<close> are these
  constants, not the state at the time a message arrives.
\<close>

record RenderScope =
  seen_currentInput :: string
  seen_currentOutput :: string

record Session =
  callbacks :: RenderScope
  closed :: bool

record MediaStream =
  tracks_live :: bool

text \<open>
  The component's voice state (lines 65-71), its refs (lines 73-76), and what it has
  created in the browser: every buffer source node, every live session, every
  microphone stream.
\<close>

record App =
  isConnected :: bool
  isConnecting :: bool
  status :: Status
  transcriptions :: "TranscriptionEntry list"
  currentInput :: string
  currentOutput :: string
  audioContextsRef :: "AudioContexts option"
  audioNodesRef :: "AudioNodes option"
  sessionRef :: "nat option"
  nextStartTimeRef :: real
  nodes :: "SourceNode list"
  sessions :: "Session list"
  streams :: "MediaStream list"

definition initial :: App where
  "initial = \<lparr>isConnected = False, isConnecting = False, status = idle, transcriptions = [],
              currentInput = [], currentOutput = [], audioContextsRef = None,
              audioNodesRef = None, sessionRef = None, nextStartTimeRef = 0,
              nodes = [], sessions = [], streams = []\<rparr>"

section \<open>Stopping (src/App.tsx, lines 78-92)\<close>

text \<open>\<open>try { s.stop(); } catch(e) {}\<close> on the handle \<open>h\<close>.\<close>

definition try_stop :: "nat \<Rightarrow> SourceNode list \<Rightarrow> SourceNode list" where
  "try_stop h ns =
     (if h < length ns
      then (case node_stop (ns ! h) of Inl e \<Rightarrow> ns | Inr n \<Rightarrow> ns[h := n])
      else ns)"

definition stopAllAudio :: "App \<Rightarrow> App" where
  "stopAllAudio s =
     (case audioNodesRef s of
        None \<Rightarrow> s
      | Some an \<Rightarrow> s\<lparr>nodes := fold try_stop (sources an) (nodes s),
                      audioNodesRef := Some (an\<lparr>sources := []\<rparr>)\<rparr>)
     \<lparr>nextStartTimeRef := 0\<rparr>"

text \<open>\<open>session.close()\<close> on the session with handle \<open>h\<close>.\<close>

definition session_close :: "nat \<Rightarrow> Session list \<Rightarrow> Session list" where
  "session_close h ss = (if h < length ss then ss[h := (ss ! h)\<lparr>closed := True\<rparr>] else ss)"

definition stopVoiceSession :: "App \<Rightarrow> App" where
  "stopVoiceSession s =
     (let s1 = (case sessionRef s of
                  Some h \<Rightarrow> s\<lparr>sessions := session_close h (sessions s), sessionRef := None\<rparr>
                | None \<Rightarrow> s);
          s2 = stopAllAudio s1
      in s2\<lparr>isConnected := False, isConnecting := False, status := idle\<rparr>)"

section \<open>Starting (src/App.tsx, lines 94-117 and 152-153)\<close>

text \<open>
  \<open>startVoiceSession\<close> up to its first \<open>await\<close> (lines 95-104). The result \<open>None\<close> is
  the return at the guard; \<open>Some scope\<close> is the call suspended at \<open>getUserMedia\<close>, with
  the values its callbacks will close over.
\<close>

definition startVoiceSession :: "App \<Rightarrow> RenderScope option \<times> App" where
  "startVoiceSession s =
     (if isConnecting s \<or> isConnected s then (None, s)
      else (Some \<lparr>seen_currentInput = currentInput s, seen_currentOutput = currentOutput s\<rparr>,
            s\<lparr>isConnecting := True,
              audioContextsRef := Some \<lparr>input_sampleRate = 16000, output_sampleRate = 24000\<rparr>,
              audioNodesRef := Some \<lparr>sources = []\<rparr>\<rparr>))"

text \<open>
  The call resumed when \<open>getUserMedia\<close> settles (lines 104-105). Granted, the stream is
  live and \<open>ai.live.connect\<close> creates a session with the callbacks; the result is the
  handle of the session the call now waits for. Denied, the \<open>catch\<close> of line 153 runs.
\<close>

definition start_after_getUserMedia :: "RenderScope \<Rightarrow> bool \<Rightarrow> App \<Rightarrow> nat option \<times> App" where
  "start_after_getUserMedia scope granted s =
     (if granted
      then (Some (length (sessions s)),
            s\<lparr>streams := streams s @ [\<lparr>tracks_live = True\<rparr>],
              sessions := sessions s @ [\<lparr>callbacks = scope, closed = False\<rparr>]\<rparr>)
      else (None, s\<lparr>isConnecting := False\<rparr>))"

text \<open>\<open>onopen\<close>, line 109 (lines 110-116 wire the capture and touch none of the state).\<close>

definition onopen :: "App \<Rightarrow> App" where
  "onopen s = s\<lparr>isConnected := True, isConnecting := False, status := listening\<rparr>"

text \<open>
  The call resumed when the session promise settles: line 152 stores the handle, or the
  \<open>catch\<close> of line 153 runs.
\<close>

definition start_after_connect :: "nat option \<Rightarrow> App \<Rightarrow> App" where
  "start_after_connect r s =
     (case r of Some h \<Rightarrow> s\<lparr>sessionRef := Some h\<rparr> | None \<Rightarrow> s\<lparr>isConnecting := False\<rparr>)"

text \<open>
  A whole run of \<open>startVoiceSession\<close> with the microphone granted and the connection
  accepted, no other event coming in between.
\<close>

definition start_to_open :: "App \<Rightarrow> App" where
  "start_to_open s =
     (case startVoiceSession s of
        (None, s1) \<Rightarrow> s1
      | (Some scope, s1) \<Rightarrow>
          (case start_after_getUserMedia scope True s1 of
             (None, s2) \<Rightarrow> s2
           | (Some h, s2) \<Rightarrow> start_after_connect (Some h) (onopen s2)))"

definition open_state :: App where
  "open_state = start_to_open initial"

section \<open>Inbound messages (src/App.tsx, lines 118-141)\<close>

text \<open>Decimal digits of a number, for \<open>Date.now().toString()\<close>.\<close>

definition digit_char :: "nat \<Rightarrow> char" where
  "digit_char d = ''0123456789'' ! d"

fun show_nat :: "nat \<Rightarrow> string" where
  "show_nat n = (if n < 10 then [digit_char n] else show_nat (n div 10) @ [digit_char (n mod 10)])"

declare show_nat.simps [simp del]

definition show_int :: "int \<Rightarrow> string" where
  "show_int i = (if i < 0 then CHR ''-'' # show_nat (nat (- i)) else show_nat (nat i))"

text \<open>
  What a run of the handler reads from outside the component: the clock (\<open>Date_now k\<close>
  is the value of the k-th call of \<open>Date.now()\<close> in line 122), the output context's
  \<open>currentTime\<close> at line 129, and the decoder. \<open>decodeAudioData (decodeBase64 b)\<close> is code
  of services/audioUtils, which is not among the sources: it is a parameter, with
  \<open>None\<close> for a chunk on which it throws.
\<close>

record Platform =
  Date_now :: "nat \<Rightarrow> int"
  currentTime :: real
  decodeAudioData :: "string \<Rightarrow> AudioBuffer option"

text \<open>\<open>prev + t.text\<close>: a missing text is appended as the string of \<open>undefined\<close>.\<close>

definition js_string :: "string option \<Rightarrow> string" where
  "js_string t = (case t of None \<Rightarrow> ''undefined'' | Some x \<Rightarrow> x)"

text \<open>Lines 119-120.\<close>

definition on_transcription :: "ServerContent \<Rightarrow> App \<Rightarrow> App" where
  "on_transcription sc s =
     (case outputTranscription sc of
        Some t \<Rightarrow> s\<lparr>currentOutput := currentOutput s @ js_string t, status := speaking\<rparr>
      | None \<Rightarrow>
          (case inputTranscription sc of
             Some t \<Rightarrow> s\<lparr>currentInput := currentInput s @ js_string t, status := listening\<rparr>
           | None \<Rightarrow> s))"

text \<open>Lines 121-124. The texts are the \<open>currentInput\<close> and \<open>currentOutput\<close> of the scope.\<close>

definition on_turnComplete :: "RenderScope \<Rightarrow> Platform \<Rightarrow> ServerContent \<Rightarrow> App \<Rightarrow> App" where
  "on_turnComplete scope p sc s =
     (if turnComplete sc
      then s\<lparr>transcriptions := transcriptions s @
                [\<lparr>entry_id = show_int (Date_now p 0) @ ''-in'', role = user,
                  entry_text = seen_currentInput scope, timestamp = Date_now p 1\<rparr>,
                 \<lparr>entry_id = show_int (Date_now p 2) @ ''-out'', role = model,
                  entry_text = seen_currentOutput scope, timestamp = Date_now p 3\<rparr>],
             currentInput := [], currentOutput := []\<rparr>
      else s)"

text \<open>
  How a run of the handler ends: the promise of the async function is fulfilled, or it
  is rejected because the decoder threw, and the lines after the \<open>await\<close> did not run.
\<close>

datatype Outcome = fulfilled | rejected

text \<open>Lines 125-139, for the base64 string of the message, if it has one.\<close>

definition on_audio :: "Platform \<Rightarrow> ServerContent \<Rightarrow> App \<Rightarrow> Outcome \<times> App" where
  "on_audio p sc s =
     (case inlineData sc of
        None \<Rightarrow> (fulfilled, s)
      | Some base64Audio \<Rightarrow>
          (case (audioContextsRef s, audioNodesRef s) of
             (Some ctxs, Some an) \<Rightarrow>
               if base64Audio = [] then (fulfilled, s)
               else
                 (let s1 = s\<lparr>nextStartTimeRef := max (nextStartTimeRef s) (currentTime p)\<rparr> in
                  case decodeAudioData p base64Audio of
                    None \<Rightarrow> (rejected, s1)
                  | Some audioBuffer \<Rightarrow>
                      (let source = length (nodes s1);
                           node = \<lparr>buffer = audioBuffer, startAt = nextStartTimeRef s1,
                                   playState = playing\<rparr>
                       in (fulfilled,
                           s1\<lparr>nodes := nodes s1 @ [node],
                              nextStartTimeRef := nextStartTimeRef s1 + duration audioBuffer,
                              audioNodesRef := Some (an\<lparr>sources := sources an @ [source]\<rparr>)\<rparr>)))
           | _ \<Rightarrow> (fulfilled, s)))"

text \<open>
  \<open>onmessage\<close>, lines 118-141, for the callbacks created in \<open>scope\<close>. A run is taken as
  one step: the continuation after the \<open>await\<close> of line 130 runs before the next event.
\<close>

definition onmessage :: "RenderScope \<Rightarrow> Platform \<Rightarrow> LiveServerMessage \<Rightarrow> App \<Rightarrow> Outcome \<times> App" where
  "onmessage scope p msg s =
     (case serverContent msg of
        None \<Rightarrow> (fulfilled, s)
      | Some sc \<Rightarrow>
          (let s1 = on_transcription sc s;
               s2 = on_turnComplete scope p sc s1
           in case on_audio p sc s2 of
                (rejected, s3) \<Rightarrow> (rejected, s3)
              | (fulfilled, s3) \<Rightarrow> (fulfilled, if interrupted sc then stopAllAudio s3 else s3)))"

text \<open>The session with handle \<open>h\<close> hands a message to its \<open>onmessage\<close> callback.\<close>

definition deliver :: "nat \<Rightarrow> Platform \<Rightarrow> LiveServerMessage \<Rightarrow> App \<Rightarrow> App" where
  "deliver h p msg s =
     (if h < length (sessions s) then snd (onmessage (callbacks (sessions s ! h)) p msg s) else s)"

text \<open>A sequence of messages, each with what the platform answers during its run.\<close>

fun run_messages :: "RenderScope \<Rightarrow> (Platform \<times> LiveServerMessage) list \<Rightarrow> App \<Rightarrow> App" where
  "run_messages scope [] s = s"
| "run_messages scope (pm # rest) s = run_messages scope rest (snd (onmessage scope (fst pm) (snd pm) s))"

text \<open>Messages that carry one thing each.\<close>

definition no_content :: ServerContent where
  "no_content = \<lparr>outputTranscription = None, inputTranscription = None, turnComplete = False,
                 inlineData = None, interrupted = False\<rparr>"

definition input_fragment :: "string \<Rightarrow> LiveServerMessage" where
  "input_fragment t = \<lparr>serverContent = Some (no_content\<lparr>inputTranscription := Some (Some t)\<rparr>)\<rparr>"

definition output_fragment :: "string \<Rightarrow> LiveServerMessage" where
  "output_fragment t = \<lparr>serverContent = Some (no_content\<lparr>outputTranscription := Some (Some t)\<rparr>)\<rparr>"

definition turn_complete :: LiveServerMessage where
  "turn_complete = \<lparr>serverContent = Some (no_content\<lparr>turnComplete := True\<rparr>)\<rparr>"

definition audio_chunk :: "string \<Rightarrow> LiveServerMessage" where
  "audio_chunk b = \<lparr>serverContent = Some (no_content\<lparr>inlineData := Some b\<rparr>)\<rparr>"


text \<open>Whether a message carries the interruption marker.\<close>

definition is_interruption :: "LiveServerMessage \<Rightarrow> bool" where
  "is_interruption msg = (case serverContent msg of None \<Rightarrow> False | Some sc \<Rightarrow> interrupted sc)"

text \<open>The handles in flight: the set of \<open>audioNodesRef\<close>, none before the first start.\<close>

definition active_sources :: "App \<Rightarrow> nat list" where
  "active_sources s = (case audioNodesRef s of None \<Rightarrow> [] | Some an \<Rightarrow> sources an)"


text \<open>The buffer that line 130 yields on this message, if the run gets one.\<close>

definition chunk_of :: "Platform \<Rightarrow> LiveServerMessage \<Rightarrow> App \<Rightarrow> AudioBuffer option" where
  "chunk_of p msg s =
     (case serverContent msg of
        None \<Rightarrow> None
      | Some sc \<Rightarrow>
          (case inlineData sc of
             None \<Rightarrow> None
           | Some b \<Rightarrow>
               if b \<noteq> [] \<and> audioContextsRef s \<noteq> None \<and> audioNodesRef s \<noteq> None
               then decodeAudioData p b else None))"

text \<open>The browser's side of playback: the node \<open>h\<close> reaches the end of its buffer.\<close>

definition playback_ends :: "nat \<Rightarrow> App \<Rightarrow> App" where
  "playback_ends h s =
     (if h < length (nodes s) \<and> playState (nodes s ! h) = playing
      then s\<lparr>nodes := (nodes s)[h := (nodes s ! h)\<lparr>playState := ended\<rparr>]\<rparr>
      else s)"

section \<open>Inputs of the examples\<close>

text \<open>A serializer of documents whose items are strings, and a document with a class and a teacher.\<close>

definition demo_stringify :: "string AppData \<Rightarrow> string" where
  "demo_stringify d =
     concat (routine d @ students d @ faculty d @ notices d @ attendance d @ polls d @ courses d)"

definition demo_data :: "string AppData" where
  "demo_data = initialData\<lparr>routine := [''r''], faculty := [''f'']\<rparr>"

text \<open>The component after \<open>setData demo_data\<close> on the first render: the timer is pending.\<close>

definition demo_sync :: "string Sync" where
  "demo_sync = setData demo_stringify demo_data
      \<lparr>data = initialData, lastSavedData = [], syncStatus = sync_idle, timer = None,
       browser = \<lparr>localStorage = Map.empty, io_log = []\<rparr>\<rparr>"

text \<open>
  A decoder that knows two chunks, one of 1.0 s and one of 0.5 s at 24000 frames per
  second, and throws on anything else; and the platform with the output clock at \<open>t\<close>.
\<close>

definition demo_decode :: "string \<Rightarrow> AudioBuffer option" where
  "demo_decode b =
     (if b = ''one-second'' then Some \<lparr>buffer_length = 24000, buffer_sampleRate = 24000\<rparr>
      else if b = ''half-second'' then Some \<lparr>buffer_length = 12000, buffer_sampleRate = 24000\<rparr>
      else None)"

definition clock_at :: "real \<Rightarrow> Platform" where
  "clock_at t = \<lparr>Date_now = (\<lambda>k. 1700000000000), currentTime = t, decodeAudioData = demo_decode\<rparr>"

text \<open>The closure of the session that \<open>open_state\<close> holds.\<close>

definition fresh_scope :: RenderScope where
  "fresh_scope = \<lparr>seen_currentInput = [], seen_currentOutput = []\<rparr>"

text \<open>
  The open session with the two chunks scheduled at clock 0 and 0.01, the first of them
  played to its end with its \<open>ended\<close> event not yet handled.
\<close>

definition two_chunks :: "(Platform \<times> LiveServerMessage) list" where
  "two_chunks = [(clock_at 0, audio_chunk ''one-second''), (clock_at (1 / 100), audio_chunk ''half-second'')]"

definition in_flight :: App where
  "in_flight = playback_ends 0 (run_messages fresh_scope two_chunks open_state)"

text \<open>The open session after the user said hello and the model answered, before the turn completes.\<close>

definition mid_turn :: App where
  "mid_turn = deliver 0 (clock_at 0) (output_fragment ''Hi there'')
                (deliver 0 (clock_at 0) (input_fragment ''hello'') open_state)"



section \<open>Properties of the persistence service and the save effect\<close>

lemma filter_index_Nil: "filter_index i [] = []"
  by (simp add: filter_index_def)

text \<open>
  C9. For every document, \<open>save\<close> writes the serialized document to the local cache
  first and sends the remote write after it, whatever the remote answers; so the cache
  holds the document just passed also when \<open>save\<close> returns false (the response was not
  ok, or the request threw); and the boolean returned is true exactly when the remote
  response is ok.
\<close>

theorem save_writes_cache_first:
  "localStorage (snd (save stringify d res b)) LOCAL_STORAGE_KEY = Some (stringify d)
   \<and> io_log (snd (save stringify d res b))
       = io_log b @ [SetItem LOCAL_STORAGE_KEY (stringify d), FetchPUT (stringify d)]
   \<and> fst (save stringify d res b) = (res = Response True)
   \<and> localStorage (snd (save stringify d (Response False) b)) LOCAL_STORAGE_KEY = Some (stringify d)
   \<and> localStorage (snd (save stringify d FetchThrew b)) LOCAL_STORAGE_KEY = Some (stringify d)
   \<and> fst (save stringify d (Response False) b) = False
   \<and> fst (save stringify d FetchThrew b) = False"
  by (cases res) (simp_all add: save_def setItem_def fetchPUT_def)

text \<open>
  C10. Whenever the routine, students and notices collections are all empty, the effect
  leaves no timer pending (the one of the previous run is cleared and none is set), so
  no call of \<open>save\<close> follows and the browser stays as it was. In particular, with these
  three empty, adding to faculty, polls, courses or attendance, or removing any item,
  sets no timer either; and a removal that empties the three is such a document.
\<close>

theorem no_save_while_three_empty:
  assumes "length (routine d) = 0 \<and> length (students d) = 0 \<and> length (notices d) = 0"
  shows "timer (setData stringify d s) = None
       \<and> timer_fires stringify res (setData stringify d s) = setData stringify d s
       \<and> browser (timer_fires stringify res (setData stringify d s)) = browser s
       \<and> timer (setData stringify (handleAddItem (Some ''faculty'') item d) s) = None
       \<and> timer (setData stringify (handleAddItem (Some ''polls'') item d) s) = None
       \<and> timer (setData stringify (handleAddItem (Some ''academic'') item d) s) = None
       \<and> timer (setData stringify (handleAddItem (Some ''attendance'') item d) s) = None
       \<and> timer (setData stringify (handleRemoveItem c i d) s) = None"
proof -
  have t: "timer (setData stringify d' s) = None"
    if "routine d' = []" "students d' = []" "notices d' = []" for d'
    using that by (simp add: setData_def save_effect_def effect_cleanup_def Let_def)
  have d: "routine d = []" "students d = []" "notices d = []"
    using assms by simp_all
  have rm: "timer (setData stringify (handleRemoveItem c i d) s) = None"
    by (rule t; cases c; simp add: d filter_index_Nil)
  have fire: "timer_fires stringify res (setData stringify d s) = setData stringify d s"
    using t [OF d] by (simp add: timer_fires_def)
  have br: "browser (setData stringify d s) = browser s"
    by (simp add: setData_def save_effect_def effect_cleanup_def Let_def)
  show ?thesis
    using t [OF d] fire br rm
    by (simp add: t handleAddItem_def d)
qed

lemma demo_sync_timer: "timer demo_sync = Some (demo_data, ''rf'')"
  by (simp add: demo_sync_def setData_def save_effect_def effect_cleanup_def demo_stringify_def demo_data_def initialData_def)

theorem no_save_while_three_empty_witness:
  "length (routine (handleRemoveItem Routine 0 demo_data)) = 0
   \<and> timer demo_sync = Some (demo_data, ''rf'')
   \<and> timer (setData demo_stringify (handleRemoveItem Routine 0 demo_data) demo_sync) = None
   \<and> io_log (browser (timer_fires demo_stringify (Response True)
        (setData demo_stringify (handleRemoveItem Routine 0 demo_data) demo_sync))) = []"
proof -
  have h: "length (routine (handleRemoveItem Routine 0 demo_data)) = 0
      \<and> length (students (handleRemoveItem Routine 0 demo_data)) = 0
      \<and> length (notices (handleRemoveItem Routine 0 demo_data)) = 0"
    by (simp add: demo_data_def initialData_def filter_index_def)
  have b: "io_log (browser demo_sync) = []"
    by (simp add: demo_sync_def setData_def save_effect_def effect_cleanup_def Let_def)
  note T = no_save_while_three_empty [OF h, of demo_stringify demo_sync "Response True"]
  have t: "timer (setData demo_stringify (handleRemoveItem Routine 0 demo_data) demo_sync) = None"
    using T by (rule conjunct1)
  have "browser (timer_fires demo_stringify (Response True)
        (setData demo_stringify (handleRemoveItem Routine 0 demo_data) demo_sync)) = browser demo_sync"
    using T [THEN conjunct2, THEN conjunct2, THEN conjunct1] .
  then show ?thesis
    using h b demo_sync_timer t by simp
qed

section \<open>Properties of stopping\<close>

lemma length_try_stop: "length (try_stop h ns) = length ns"
  by (simp add: try_stop_def node_stop_def)

lemma length_fold_try_stop: "length (fold try_stop hs ns) = length ns"
  by (induction hs arbitrary: ns) (simp_all add: length_try_stop)

lemma playState_try_stop:
  "i < length ns \<Longrightarrow>
     playState (try_stop h ns ! i) = (if i = h \<and> playState (ns ! i) = playing then stopped else playState (ns ! i))"
  by (auto simp: try_stop_def node_stop_def nth_list_update)

lemma playState_fold_try_stop:
  "i < length ns \<Longrightarrow>
     playState (fold try_stop hs ns ! i)
       = (if i \<in> set hs \<and> playState (ns ! i) = playing then stopped else playState (ns ! i))"
proof (induction hs arbitrary: ns)
  case Nil
  then show ?case by simp
next
  case (Cons h hs)
  have "i < length (try_stop h ns)"
    using Cons.prems by (simp add: length_try_stop)
  from Cons.IH [OF this] show ?case
    using Cons.prems by (auto simp: playState_try_stop)
qed

lemma stopAllAudio_silences:
  "h \<in> set (active_sources s) \<Longrightarrow> h < length (nodes s) \<Longrightarrow> playState (nodes (stopAllAudio s) ! h) \<noteq> playing"
  by (cases "audioNodesRef s") (simp_all add: stopAllAudio_def active_sources_def playState_fold_try_stop)

lemma stopAllAudio_cleared:
  "active_sources (stopAllAudio s) = [] \<and> nextStartTimeRef (stopAllAudio s) = 0"
  by (cases "audioNodesRef s") (simp_all add: stopAllAudio_def active_sources_def)


lemma stopAllAudio_streams: "streams (stopAllAudio s) = streams s"
  by (cases "audioNodesRef s") (simp_all add: stopAllAudio_def)

lemma session_close_closed: "h < length ss \<Longrightarrow> closed (session_close h ss ! h)"
  by (simp add: session_close_def)

section \<open>Properties of the message handler\<close>

lemma on_transcription_refs:
  "audioNodesRef (on_transcription sc s) = audioNodesRef s"
  "audioContextsRef (on_transcription sc s) = audioContextsRef s"
  "nodes (on_transcription sc s) = nodes s"
  "nextStartTimeRef (on_transcription sc s) = nextStartTimeRef s"
  by (simp_all add: on_transcription_def split: option.splits)

lemma on_turnComplete_refs:
  "audioNodesRef (on_turnComplete scope p sc s) = audioNodesRef s"
  "audioContextsRef (on_turnComplete scope p sc s) = audioContextsRef s"
  "nodes (on_turnComplete scope p sc s) = nodes s"
  "nextStartTimeRef (on_turnComplete scope p sc s) = nextStartTimeRef s"
  "status (on_turnComplete scope p sc s) = status s"
  by (simp_all add: on_turnComplete_def)

lemma on_audio_cases:
  obtains
    (skip) "on_audio p sc s = (fulfilled, s)"
      "inlineData sc = None \<or> inlineData sc = Some [] \<or> audioContextsRef s = None \<or> audioNodesRef s = None"
  | (throws) b where "inlineData sc = Some b" "b \<noteq> []" "audioContextsRef s \<noteq> None" "audioNodesRef s \<noteq> None"
      "decodeAudioData p b = None"
      "on_audio p sc s = (rejected, s\<lparr>nextStartTimeRef := max (nextStartTimeRef s) (currentTime p)\<rparr>)"
  | (plays) b an buf where "inlineData sc = Some b" "b \<noteq> []" "audioContextsRef s \<noteq> None" "audioNodesRef s = Some an"
      "decodeAudioData p b = Some buf"
      "on_audio p sc s = (fulfilled,
          s\<lparr>nextStartTimeRef := max (nextStartTimeRef s) (currentTime p),
            nodes := nodes s @ [\<lparr>buffer = buf, startAt = max (nextStartTimeRef s) (currentTime p), playState = playing\<rparr>],
            nextStartTimeRef := max (nextStartTimeRef s) (currentTime p) + duration buf,
            audioNodesRef := Some (an\<lparr>sources := sources an @ [length (nodes s)]\<rparr>)\<rparr>)"
proof (cases "inlineData sc")
  case None
  then have "on_audio p sc s = (fulfilled, s)"
    by (simp add: on_audio_def)
  then show ?thesis using skip None by simp
next
  case (Some b)
  show ?thesis
  proof (cases "b = [] \<or> audioContextsRef s = None \<or> audioNodesRef s = None")
    case True
    then have "on_audio p sc s = (fulfilled, s)"
      using Some by (auto simp: on_audio_def split: option.splits)
    then show ?thesis using skip Some True by auto
  next
    case False
    then obtain c an where refs: "audioContextsRef s = Some c" "audioNodesRef s = Some an" and b: "b \<noteq> []"
      by auto
    show ?thesis
    proof (cases "decodeAudioData p b")
      case None
      then have "on_audio p sc s = (rejected, s\<lparr>nextStartTimeRef := max (nextStartTimeRef s) (currentTime p)\<rparr>)"
        using Some refs b by (simp add: on_audio_def)
      then show ?thesis using throws [of b] Some refs b None by simp
    next
      case (Some buf)
      then have "on_audio p sc s = (fulfilled,
          s\<lparr>nextStartTimeRef := max (nextStartTimeRef s) (currentTime p),
            nodes := nodes s @ [\<lparr>buffer = buf, startAt = max (nextStartTimeRef s) (currentTime p), playState = playing\<rparr>],
            nextStartTimeRef := max (nextStartTimeRef s) (currentTime p) + duration buf,
            audioNodesRef := Some (an\<lparr>sources := sources an @ [length (nodes s)]\<rparr>)\<rparr>)"
        using \<open>inlineData sc = Some b\<close> refs b by (simp add: on_audio_def Let_def)
      then show ?thesis using plays [of b an buf] \<open>inlineData sc = Some b\<close> refs b Some by simp
    qed
  qed
qed



lemma onmessage_not_interrupted:
  assumes sc: "serverContent msg = Some sc" and i: "\<not> interrupted sc"
  shows "snd (onmessage scope p msg s) = snd (on_audio p sc (on_turnComplete scope p sc (on_transcription sc s)))"
  using sc i by (simp add: onmessage_def Let_def split: prod.splits Outcome.splits)

lemma duration_nonneg: "0 \<le> duration b"
  by (simp add: duration_def)

lemma on_audio_cursor_mono: "nextStartTimeRef s \<le> nextStartTimeRef (snd (on_audio p sc s))"
proof (cases p sc s rule: on_audio_cases)
  case skip
  then show ?thesis by simp
next
  case (throws b)
  then show ?thesis by simp
next
  case (plays b an buf)
  have "nextStartTimeRef s \<le> max (nextStartTimeRef s) (currentTime p) + duration buf"
    using duration_nonneg [of buf] by linarith
  then show ?thesis using plays(6) by simp
qed

lemma onmessage_cursor_mono:
  assumes "\<not> is_interruption msg"
  shows "nextStartTimeRef s \<le> nextStartTimeRef (snd (onmessage scope p msg s))"
proof (cases "serverContent msg")
  case None
  then show ?thesis by (simp add: onmessage_def)
next
  case (Some sc)
  with assms have i: "\<not> interrupted sc" by (simp add: is_interruption_def)
  have "nextStartTimeRef s = nextStartTimeRef (on_turnComplete scope p sc (on_transcription sc s))"
    by (simp add: on_turnComplete_refs on_transcription_refs)
  then show ?thesis
    using on_audio_cursor_mono [of "on_turnComplete scope p sc (on_transcription sc s)" p sc]
    by (simp add: onmessage_not_interrupted [OF Some i])
qed

lemma run_messages_append: "run_messages scope (xs @ ys) s = run_messages scope ys (run_messages scope xs s)"
  by (induction xs arbitrary: s) simp_all

lemma run_messages_cursor_mono:
  "\<forall>pm\<in>set evs. \<not> is_interruption (snd pm) \<Longrightarrow>
     nextStartTimeRef s \<le> nextStartTimeRef (run_messages scope evs s)"
proof (induction evs arbitrary: s)
  case Nil
  then show ?case by simp
next
  case (Cons pm evs)
  have "nextStartTimeRef s \<le> nextStartTimeRef (snd (onmessage scope (fst pm) (snd pm) s))"
    using Cons.prems by (intro onmessage_cursor_mono) simp
  also have "\<dots> \<le> nextStartTimeRef (run_messages scope evs (snd (onmessage scope (fst pm) (snd pm) s)))"
    using Cons.prems by (intro Cons.IH) simp
  finally show ?case by simp
qed

lemma onmessage_schedules:
  assumes ni: "\<not> is_interruption msg" and ch: "chunk_of p msg s = Some buf"
  shows "nodes (snd (onmessage scope p msg s))
           = nodes s @ [\<lparr>buffer = buf, startAt = max (nextStartTimeRef s) (currentTime p), playState = playing\<rparr>]
       \<and> nextStartTimeRef (snd (onmessage scope p msg s)) = max (nextStartTimeRef s) (currentTime p) + duration buf
       \<and> active_sources (snd (onmessage scope p msg s)) = active_sources s @ [length (nodes s)]"
proof -
  from ch obtain sc b where sc: "serverContent msg = Some sc" and b: "inlineData sc = Some b"
    and c: "b \<noteq> []" "audioContextsRef s \<noteq> None" "audioNodesRef s \<noteq> None" "decodeAudioData p b = Some buf"
    by (auto simp: chunk_of_def split: option.splits if_splits)
  from ni sc have i: "\<not> interrupted sc" by (simp add: is_interruption_def)
  define s2 where "s2 = on_turnComplete scope p sc (on_transcription sc s)"
  have refs: "audioNodesRef s2 = audioNodesRef s" "audioContextsRef s2 = audioContextsRef s"
    "nodes s2 = nodes s" "nextStartTimeRef s2 = nextStartTimeRef s"
    by (simp_all add: s2_def on_turnComplete_refs on_transcription_refs)
  have r: "snd (onmessage scope p msg s) = snd (on_audio p sc s2)"
    by (simp add: onmessage_not_interrupted [OF sc i] s2_def)
  show ?thesis
  proof (cases p sc s2 rule: on_audio_cases)
    case skip
    then show ?thesis using b c by (auto simp: refs)
  next
    case (throws b')
    then show ?thesis using b c by simp
  next
    case (plays b' an buf')
    then show ?thesis using b c by (simp add: r refs active_sources_def)
  qed
qed



section \<open>The states of the examples\<close>

lemma open_state_eq:
  "open_state = \<lparr>isConnected = True, isConnecting = False, status = listening, transcriptions = [],
      currentInput = [], currentOutput = [],
      audioContextsRef = Some \<lparr>input_sampleRate = 16000, output_sampleRate = 24000\<rparr>,
      audioNodesRef = Some \<lparr>sources = []\<rparr>, sessionRef = Some 0, nextStartTimeRef = 0,
      nodes = [], sessions = [\<lparr>callbacks = fresh_scope, closed = False\<rparr>],
      streams = [\<lparr>tracks_live = True\<rparr>]\<rparr>"
  by (simp add: open_state_def start_to_open_def startVoiceSession_def initial_def
      start_after_getUserMedia_def onopen_def start_after_connect_def fresh_scope_def)

lemma first_chunk_eq:
  "run_messages fresh_scope [(clock_at 0, audio_chunk ''one-second'')] open_state
     = open_state\<lparr>nextStartTimeRef := 1,
         nodes := [\<lparr>buffer = \<lparr>buffer_length = 24000, buffer_sampleRate = 24000\<rparr>, startAt = 0, playState = playing\<rparr>],
         audioNodesRef := Some \<lparr>sources = [0]\<rparr>\<rparr>"
  by (simp add: open_state_eq onmessage_def audio_chunk_def no_content_def on_transcription_def
      on_turnComplete_def on_audio_def clock_at_def demo_decode_def duration_def Let_def)

lemma two_chunks_eq:
  "run_messages fresh_scope two_chunks open_state
     = open_state\<lparr>nextStartTimeRef := 3 / 2,
         nodes := [\<lparr>buffer = \<lparr>buffer_length = 24000, buffer_sampleRate = 24000\<rparr>, startAt = 0, playState = playing\<rparr>,
                   \<lparr>buffer = \<lparr>buffer_length = 12000, buffer_sampleRate = 24000\<rparr>, startAt = 1, playState = playing\<rparr>],
         audioNodesRef := Some \<lparr>sources = [0, 1]\<rparr>\<rparr>"
  by (simp add: two_chunks_def open_state_eq onmessage_def audio_chunk_def no_content_def on_transcription_def
      on_turnComplete_def on_audio_def clock_at_def demo_decode_def duration_def Let_def)

lemma in_flight_eq:
  "in_flight
     = open_state\<lparr>nextStartTimeRef := 3 / 2,
         nodes := [\<lparr>buffer = \<lparr>buffer_length = 24000, buffer_sampleRate = 24000\<rparr>, startAt = 0, playState = ended\<rparr>,
                   \<lparr>buffer = \<lparr>buffer_length = 12000, buffer_sampleRate = 24000\<rparr>, startAt = 1, playState = playing\<rparr>],
         audioNodesRef := Some \<lparr>sources = [0, 1]\<rparr>\<rparr>"
  unfolding in_flight_def two_chunks_eq by (simp add: playback_ends_def open_state_eq)

lemma mid_turn_eq:
  "mid_turn = open_state\<lparr>currentInput := ''hello'', currentOutput := ''Hi there'', status := speaking\<rparr>"
  by (simp add: mid_turn_def deliver_def open_state_eq onmessage_def input_fragment_def output_fragment_def
      no_content_def on_transcription_def on_turnComplete_def on_audio_def js_string_def Let_def)


lemma show_clock: "show_int 1700000000000 = ''1700000000000''"
  by (simp add: show_int_def show_nat.simps digit_char_def)



section \<open>The transcript at the end of a turn\<close>

text \<open>
  What the handler does on a turn-complete message, for any state: two entries are
  appended, user then model, both buffers are emptied, and the texts of the entries are
  those of the scope of the callbacks.
\<close>

lemma turnComplete_appends_scope_texts:
  assumes sc: "serverContent msg = Some sc" and tc: "turnComplete sc"
  shows "map role (transcriptions (snd (onmessage scope p msg s))) = map role (transcriptions s) @ [user, model]
       \<and> map entry_text (transcriptions (snd (onmessage scope p msg s)))
           = map entry_text (transcriptions s) @ [seen_currentInput scope, seen_currentOutput scope]
       \<and> currentInput (snd (onmessage scope p msg s)) = []
       \<and> currentOutput (snd (onmessage scope p msg s)) = []"
proof -
  define s2 where "s2 = on_turnComplete scope p sc (on_transcription sc s)"
  have t: "transcriptions (on_transcription sc s) = transcriptions s"
    by (simp add: on_transcription_def split: option.splits)
  have s2: "map role (transcriptions s2) = map role (transcriptions s) @ [user, model]"
    "map entry_text (transcriptions s2)
       = map entry_text (transcriptions s) @ [seen_currentInput scope, seen_currentOutput scope]"
    "currentInput s2 = []" "currentOutput s2 = []"
    using tc by (simp_all add: s2_def on_turnComplete_def t)
  have keep_audio: "transcriptions (snd (on_audio p sc s2)) = transcriptions s2
      \<and> currentInput (snd (on_audio p sc s2)) = currentInput s2
      \<and> currentOutput (snd (on_audio p sc s2)) = currentOutput s2"
    by (cases p sc s2 rule: on_audio_cases) simp_all
  have keep_stop: "transcriptions (stopAllAudio x) = transcriptions x
      \<and> currentInput (stopAllAudio x) = currentInput x \<and> currentOutput (stopAllAudio x) = currentOutput x" for x
    by (cases "audioNodesRef x") (simp_all add: stopAllAudio_def)
  obtain r s3 where a: "on_audio p sc s2 = (r, s3)" by (cases "on_audio p sc s2")
  have "transcriptions (snd (onmessage scope p msg s)) = transcriptions s2
      \<and> currentInput (snd (onmessage scope p msg s)) = currentInput s2
      \<and> currentOutput (snd (onmessage scope p msg s)) = currentOutput s2"
    using sc a keep_audio keep_stop [of s3]
    by (cases r) (simp_all add: onmessage_def s2_def Let_def)
  then show ?thesis using s2 by simp
qed

text \<open>
  C1, at an input where the code departs from it. A session is started on the fresh
  component and opens; the user's fragment \<open>hello\<close> and the model's fragment
  \<open>Hi there\<close> arrive, and the buffers hold them; then the turn completes. Two entries
  are appended, user then model, and both buffers are emptied, but the texts of both
  entries are empty: they are the \<open>currentInput\<close> and \<open>currentOutput\<close> of the render in
  which the session was started, not the accumulated fragments.
\<close>

theorem turn_complete_logs_stale_text:
  "currentInput mid_turn = ''hello'' \<and> currentOutput mid_turn = ''Hi there''
   \<and> transcriptions (deliver 0 (clock_at 0) turn_complete mid_turn)
       = [\<lparr>entry_id = ''1700000000000-in'', role = user, entry_text = [], timestamp = 1700000000000\<rparr>,
          \<lparr>entry_id = ''1700000000000-out'', role = model, entry_text = [], timestamp = 1700000000000\<rparr>]
   \<and> currentInput (deliver 0 (clock_at 0) turn_complete mid_turn) = []
   \<and> currentOutput (deliver 0 (clock_at 0) turn_complete mid_turn) = []"
  by (simp add: mid_turn_eq open_state_eq deliver_def onmessage_def turn_complete_def no_content_def
      on_transcription_def on_turnComplete_def on_audio_def fresh_scope_def clock_at_def show_clock Let_def)

section \<open>Interruption\<close>







section \<open>The playback cursor\<close>

text \<open>
  C3. In a sequence of messages none of which carries the interruption marker, every
  message leaves \<open>nextStartTime\<close> at least where it was, so the cursor never decreases
  from the start to the end of the sequence; a message whose chunk is decoded is
  scheduled at the maximum of the cursor and the output clock, and the cursor is then
  that start plus the duration of the chunk. With chunks of 1.0 s and 0.5 s arriving
  at clock 0 and 0.01 in the open session, the starts are 0 and 1 and the cursor ends
  at 1.5.
\<close>

theorem playback_cursor_non_decreasing:
  assumes ni: "\<forall>pm\<in>set evs. \<not> is_interruption (snd pm)" and split: "evs = xs @ pm # ys"
  shows "nextStartTimeRef (run_messages scope xs s) \<le> nextStartTimeRef (run_messages scope (xs @ [pm]) s)
       \<and> nextStartTimeRef s \<le> nextStartTimeRef (run_messages scope evs s)
       \<and> (\<forall>buf. chunk_of (fst pm) (snd pm) (run_messages scope xs s) = Some buf \<longrightarrow>
             nodes (run_messages scope (xs @ [pm]) s)
               = nodes (run_messages scope xs s)
                 @ [\<lparr>buffer = buf,
                     startAt = max (nextStartTimeRef (run_messages scope xs s)) (currentTime (fst pm)),
                     playState = playing\<rparr>]
             \<and> nextStartTimeRef (run_messages scope (xs @ [pm]) s)
               = max (nextStartTimeRef (run_messages scope xs s)) (currentTime (fst pm)) + duration buf)
       \<and> map startAt (nodes (run_messages fresh_scope two_chunks open_state)) = [0, 1]
       \<and> nextStartTimeRef (run_messages fresh_scope two_chunks open_state) = 3 / 2"
proof -
  have pm: "\<not> is_interruption (snd pm)"
    using ni split by simp
  have step: "run_messages scope (xs @ [pm]) s = snd (onmessage scope (fst pm) (snd pm) (run_messages scope xs s))"
    by (simp add: run_messages_append)
  have one: "nextStartTimeRef (run_messages scope xs s) \<le> nextStartTimeRef (run_messages scope (xs @ [pm]) s)"
    unfolding step by (rule onmessage_cursor_mono [OF pm])
  have all: "nextStartTimeRef s \<le> nextStartTimeRef (run_messages scope evs s)"
    by (rule run_messages_cursor_mono [OF ni])
  have sched: "nodes (run_messages scope (xs @ [pm]) s)
               = nodes (run_messages scope xs s)
                 @ [\<lparr>buffer = buf,
                     startAt = max (nextStartTimeRef (run_messages scope xs s)) (currentTime (fst pm)),
                     playState = playing\<rparr>]
             \<and> nextStartTimeRef (run_messages scope (xs @ [pm]) s)
               = max (nextStartTimeRef (run_messages scope xs s)) (currentTime (fst pm)) + duration buf"
    if "chunk_of (fst pm) (snd pm) (run_messages scope xs s) = Some buf" for buf
    unfolding step using onmessage_schedules [OF pm that, of scope] by simp
  have scen: "map startAt (nodes (run_messages fresh_scope two_chunks open_state)) = [0, 1]"
    "nextStartTimeRef (run_messages fresh_scope two_chunks open_state) = 3 / 2"
    by (simp_all add: two_chunks_eq)
  show ?thesis
    using one all sched scen by blast
qed

theorem playback_cursor_non_decreasing_witness:
  "\<not> is_interruption (audio_chunk ''one-second'') \<and> \<not> is_interruption (audio_chunk ''half-second'')
   \<and> chunk_of (clock_at (1 / 100)) (audio_chunk ''half-second'')
        (run_messages fresh_scope [(clock_at 0, audio_chunk ''one-second'')] open_state)
       = Some \<lparr>buffer_length = 12000, buffer_sampleRate = 24000\<rparr>
   \<and> nextStartTimeRef (run_messages fresh_scope [(clock_at 0, audio_chunk ''one-second'')] open_state) = 1
   \<and> nextStartTimeRef (run_messages fresh_scope [(clock_at 0, audio_chunk ''one-second'')] open_state)
        \<le> nextStartTimeRef (run_messages fresh_scope two_chunks open_state)
   \<and> nodes (run_messages fresh_scope two_chunks open_state)
       = nodes (run_messages fresh_scope [(clock_at 0, audio_chunk ''one-second'')] open_state)
         @ [\<lparr>buffer = \<lparr>buffer_length = 12000, buffer_sampleRate = 24000\<rparr>, startAt = 1, playState = playing\<rparr>]"
proof -
  have ni: "\<not> is_interruption (audio_chunk b)" for b
    by (simp add: is_interruption_def audio_chunk_def no_content_def)
  have h1: "\<forall>pm\<in>set two_chunks. \<not> is_interruption (snd pm)"
    by (simp add: two_chunks_def ni)
  have h2: "two_chunks = [(clock_at 0, audio_chunk ''one-second'')] @ (clock_at (1 / 100), audio_chunk ''half-second'') # []"
    by (simp add: two_chunks_def)
  have app: "[(clock_at 0, audio_chunk ''one-second'')] @ [(clock_at (1 / 100), audio_chunk ''half-second'')] = two_chunks"
    by (simp add: two_chunks_def)
  have c: "chunk_of (clock_at (1 / 100)) (audio_chunk ''half-second'')
        (run_messages fresh_scope [(clock_at 0, audio_chunk ''one-second'')] open_state)
       = Some \<lparr>buffer_length = 12000, buffer_sampleRate = 24000\<rparr>"
    unfolding first_chunk_eq
    by (simp add: chunk_of_def audio_chunk_def no_content_def open_state_eq clock_at_def demo_decode_def)
  have n1: "nextStartTimeRef (run_messages fresh_scope [(clock_at 0, audio_chunk ''one-second'')] open_state) = 1"
    unfolding first_chunk_eq by simp
  note T = playback_cursor_non_decreasing [OF h1 h2, of fresh_scope open_state, unfolded app]
  have le: "nextStartTimeRef (run_messages fresh_scope [(clock_at 0, audio_chunk ''one-second'')] open_state)
        \<le> nextStartTimeRef (run_messages fresh_scope two_chunks open_state)"
    using T by (rule conjunct1)
  have "nodes (run_messages fresh_scope two_chunks open_state)
       = nodes (run_messages fresh_scope [(clock_at 0, audio_chunk ''one-second'')] open_state)
         @ [\<lparr>buffer = \<lparr>buffer_length = 12000, buffer_sampleRate = 24000\<rparr>,
             startAt = max (nextStartTimeRef (run_messages fresh_scope [(clock_at 0, audio_chunk ''one-second'')] open_state))
                        (currentTime (fst (clock_at (1 / 100), audio_chunk ''half-second''))),
             playState = playing\<rparr>]"
    using T c by simp
  then have "nodes (run_messages fresh_scope two_chunks open_state)
       = nodes (run_messages fresh_scope [(clock_at 0, audio_chunk ''one-second'')] open_state)
         @ [\<lparr>buffer = \<lparr>buffer_length = 12000, buffer_sampleRate = 24000\<rparr>, startAt = 1, playState = playing\<rparr>]"
    unfolding n1 by (simp add: clock_at_def)
  then show ?thesis
    using ni c n1 le by simp
qed

section \<open>Start and stop\<close>

text \<open>
  C5, as the code has it. \<open>stopVoiceSession\<close> is one synchronous call, after which the
  handle in \<open>sessionRef\<close>, if there was one, is closed and dropped, the set of handles
  in flight is empty with none of them playing, \<open>nextStartTime\<close> is 0, both connection
  flags are false and the status is idle. The microphone streams are as before the
  call: nothing stops their tracks.
\<close>

theorem stop_closes_session_and_silences:
  "sessionRef (stopVoiceSession s) = None
   \<and> sessions (stopVoiceSession s)
       = (case sessionRef s of None \<Rightarrow> sessions s | Some h \<Rightarrow> session_close h (sessions s))
   \<and> (\<forall>h. sessionRef s = Some h \<and> h < length (sessions s) \<longrightarrow> closed (sessions (stopVoiceSession s) ! h))
   \<and> active_sources (stopVoiceSession s) = []
   \<and> nextStartTimeRef (stopVoiceSession s) = 0
   \<and> (\<forall>h\<in>set (active_sources s). h < length (nodes s) \<longrightarrow>
         playState (nodes (stopVoiceSession s) ! h) \<noteq> playing)
   \<and> \<not> isConnected (stopVoiceSession s) \<and> \<not> isConnecting (stopVoiceSession s)
   \<and> status (stopVoiceSession s) = idle
   \<and> streams (stopVoiceSession s) = streams s"
proof -
  define s1 where "s1 = (case sessionRef s of
                  Some h \<Rightarrow> s\<lparr>sessions := session_close h (sessions s), sessionRef := None\<rparr>
                | None \<Rightarrow> s)"
  have st: "stopVoiceSession s = (stopAllAudio s1)\<lparr>isConnected := False, isConnecting := False, status := idle\<rparr>"
    by (simp add: stopVoiceSession_def s1_def Let_def)
  have s1: "sessionRef s1 = None" "audioNodesRef s1 = audioNodesRef s" "nodes s1 = nodes s"
    "streams s1 = streams s"
    "sessions s1 = (case sessionRef s of None \<Rightarrow> sessions s | Some h \<Rightarrow> session_close h (sessions s))"
    by (simp_all add: s1_def split: option.splits)
  have act: "active_sources s1 = active_sources s"
    by (simp add: active_sources_def s1)
  have keep: "sessionRef (stopAllAudio s1) = sessionRef s1" "sessions (stopAllAudio s1) = sessions s1"
    by (cases "audioNodesRef s1"; simp add: stopAllAudio_def)+
  have a: "active_sources (stopVoiceSession s) = []" "nextStartTimeRef (stopVoiceSession s) = 0"
    using stopAllAudio_cleared [of s1] by (simp_all add: st active_sources_def)
  have b: "playState (nodes (stopVoiceSession s) ! h) \<noteq> playing"
    if "h \<in> set (active_sources s)" "h < length (nodes s)" for h
    using stopAllAudio_silences [of h s1] that by (simp add: st act s1)
  have c: "sessions (stopVoiceSession s)
       = (case sessionRef s of None \<Rightarrow> sessions s | Some h \<Rightarrow> session_close h (sessions s))"
    by (simp add: st keep s1)
  have d: "closed (sessions (stopVoiceSession s) ! h)" if "sessionRef s = Some h" "h < length (sessions s)" for h
    using that by (simp add: c session_close_closed)
  have e: "sessionRef (stopVoiceSession s) = None" "streams (stopVoiceSession s) = streams s"
    by (simp_all add: st keep s1 stopAllAudio_streams)
  show ?thesis
    using a b c d e by (simp add: st)
qed

theorem stop_closes_session_and_silences_witness:
  "sessionRef in_flight = Some 0 \<and> active_sources in_flight = [0, 1]
   \<and> map playState (nodes in_flight) = [ended, playing]
   \<and> sessionRef (stopVoiceSession in_flight) = None
   \<and> closed (sessions (stopVoiceSession in_flight) ! 0)
   \<and> active_sources (stopVoiceSession in_flight) = []
   \<and> playState (nodes (stopVoiceSession in_flight) ! 0) \<noteq> playing
   \<and> playState (nodes (stopVoiceSession in_flight) ! 1) \<noteq> playing
   \<and> status (stopVoiceSession in_flight) = idle
   \<and> map tracks_live (streams (stopVoiceSession in_flight)) = [True]"
proof -
  note T = stop_closes_session_and_silences [of in_flight]
  have a: "sessionRef in_flight = Some 0" "active_sources in_flight = [0, 1]"
    "map playState (nodes in_flight) = [ended, playing]" "length (nodes in_flight) = 2"
    "length (sessions in_flight) = 1" "map tracks_live (streams in_flight) = [True]"
    by (simp_all add: in_flight_eq active_sources_def open_state_eq)
  have b: "\<forall>h\<in>set (active_sources in_flight). h < length (nodes in_flight) \<longrightarrow>
             playState (nodes (stopVoiceSession in_flight) ! h) \<noteq> playing"
    using T by blast
  have c: "playState (nodes (stopVoiceSession in_flight) ! 0) \<noteq> playing"
    "playState (nodes (stopVoiceSession in_flight) ! 1) \<noteq> playing"
    using b a by simp_all
  have d: "\<forall>h. sessionRef in_flight = Some h \<and> h < length (sessions in_flight) \<longrightarrow>
             closed (sessions (stopVoiceSession in_flight) ! h)"
    using T by blast
  have e: "closed (sessions (stopVoiceSession in_flight) ! 0)"
    using d a by simp
  have f: "streams (stopVoiceSession in_flight) = streams in_flight"
    using T by blast
  show ?thesis
    using T a c e f by simp
qed

text \<open>
  C5 as stated fails: the stream acquired when the session was started has its tracks
  live after \<open>stopVoiceSession\<close>.
\<close>

theorem stop_leaves_microphone_live:
  "map tracks_live (streams open_state) = [True]
   \<and> map tracks_live (streams (stopVoiceSession open_state)) = [True]"
  by (simp add: open_state_eq stopVoiceSession_def stopAllAudio_def session_close_def Let_def)

text \<open>
  C6. While a session is connecting or open, \<open>startVoiceSession\<close> returns at its guard:
  the state is the same, nothing is left suspended, and so no session is created.
\<close>

theorem start_while_active_is_noop:
  assumes "isConnecting s \<or> isConnected s"
  shows "startVoiceSession s = (None, s)"
  using assms by (simp add: startVoiceSession_def)

theorem start_while_active_is_noop_witness:
  "isConnecting (snd (startVoiceSession initial))
   \<and> fst (startVoiceSession initial) \<noteq> None
   \<and> startVoiceSession (snd (startVoiceSession initial)) = (None, snd (startVoiceSession initial))
   \<and> isConnected open_state
   \<and> startVoiceSession open_state = (None, open_state)
   \<and> length (sessions (snd (startVoiceSession open_state))) = 1"
proof -
  have c: "isConnecting (snd (startVoiceSession initial))" "fst (startVoiceSession initial) \<noteq> None"
    by (simp_all add: startVoiceSession_def initial_def)
  have o: "isConnected open_state" "length (sessions open_state) = 1"
    by (simp_all add: open_state_eq)
  have c': "isConnecting (snd (startVoiceSession initial)) \<or> isConnected (snd (startVoiceSession initial))"
    using c by simp
  have o': "isConnecting open_state \<or> isConnected open_state"
    using o by simp
  show ?thesis
    using start_while_active_is_noop [OF c'] start_while_active_is_noop [OF o'] c o by simp
qed

text \<open>
  C7. From any state, stopping twice ends in the state that stopping once ends in; and
  stopping the component that was never started leaves it as it is.
\<close>

theorem stop_idempotent:
  "stopVoiceSession (stopVoiceSession s) = stopVoiceSession s \<and> stopVoiceSession initial = initial"
proof
  show "stopVoiceSession (stopVoiceSession s) = stopVoiceSession s"
    by (cases "audioNodesRef s"; cases "sessionRef s")
       (simp_all add: stopVoiceSession_def stopAllAudio_def Let_def)
  show "stopVoiceSession initial = initial"
    by (simp add: stopVoiceSession_def stopAllAudio_def initial_def Let_def)
qed

end
